theory Spec2Isabelle
  imports Main
begin

section \<open>JavaScript values\<close>

text \<open>
  The values that reach the configuration object: an assignment to a property of
  \<^verbatim>\<open>config\<close> may carry any JavaScript value, a plain options object is a finite map
  from property names to values. Numbers are the integers (milliseconds, ports, counts);
  an object or function used as a value is \<open>JObject r\<close>, known by its reference \<open>r\<close>,
  which is how \<^verbatim>\<open>===\<close> and \<^verbatim>\<open>Array.prototype.includes\<close> compare it.
\<close>

datatype jsval = JUndefined | JNull | JBool bool | JNum int | JStr string | JObject nat

type_synonym jsobject = "string \<rightharpoonup> jsval"

section \<open>config.js\<close>

text \<open>
  \<^verbatim>\<open>ADAPTER_TYPES = { INLINE: 'inline', REDIS: 'redis' }\<close>; the model keeps
  \<^verbatim>\<open>Object.values(ADAPTER_TYPES)\<close>, the list the setter searches.
\<close>

definition ADAPTER_TYPES :: "jsval list" where
  "ADAPTER_TYPES = [JStr ''inline'', JStr ''redis'']"

record config =
  queueAdapter :: jsval
  redis :: jsobject
  defaultRetryAttempts :: int
  defaultBackoffDelay :: int

definition defaultConfig :: config where
  "defaultConfig = \<lparr> queueAdapter = JStr ''inline'',
                     redis = [''host'' \<mapsto> JStr ''localhost'', ''port'' \<mapsto> JNum 6379],
                     defaultRetryAttempts = 3,
                     defaultBackoffDelay = 1000 \<rparr>"

text \<open>
  The errors a caller of the library can receive. \<open>UnknownAdapter v\<close> is the setter's
  \<^verbatim>\<open>Error(`Unknown adapter: ${adapter}. Valid options: inline, redis`)\<close>,
  \<open>UnknownAdapterType v\<close> is the one of \<^verbatim>\<open>getAdapter\<close>'s default branch,
  \<open>Thrown e\<close> is an error \<open>e\<close> raised by a job's own code, and \<open>BullMQ_error e\<close> is an
  error \<open>e\<close> thrown by a BullMQ constructor or by \<^verbatim>\<open>queue.add\<close>, which the library
  does not catch.
\<close>

datatype 'e error =
  UnknownAdapter jsval | UnknownAdapterType jsval | Thrown 'e | BullMQ_error 'e

text \<open>
  A setter either throws or updates \<^verbatim>\<open>currentConfig\<close>; the model returns the outcome
  together with the configuration the assignment leaves behind.
\<close>

definition set_queueAdapter :: "jsval \<Rightarrow> config \<Rightarrow> ('e error + unit) \<times> config" where
  "set_queueAdapter adapter current =
     (if adapter \<notin> set ADAPTER_TYPES
      then (Inl (UnknownAdapter adapter), current)
      else (Inr (), current\<lparr>queueAdapter := adapter\<rparr>))"

text \<open>\<^verbatim>\<open>currentConfig.redis = { ...currentConfig.redis, ...options }\<close>\<close>

definition set_redis :: "jsobject \<Rightarrow> config \<Rightarrow> config" where
  "set_redis options current =
     current\<lparr>redis := redis current ++ options\<rparr>"

definition set_defaultRetryAttempts :: "int \<Rightarrow> config \<Rightarrow> config" where
  "set_defaultRetryAttempts attempts current =
     current\<lparr>defaultRetryAttempts := attempts\<rparr>"

definition set_defaultBackoffDelay :: "int \<Rightarrow> config \<Rightarrow> config" where
  "set_defaultBackoffDelay delay current =
     current\<lparr>defaultBackoffDelay := delay\<rparr>"

section \<open>base-job.js: job classes and instances\<close>

text \<open>
  A job instance carries the three fields \<^verbatim>\<open>BaseJob\<close> declares and whatever fields
  the subclass adds (\<open>own_fields\<close>). Arguments are values of type \<open>'a\<close>.
\<close>

record ('a, 'u) job_instance =
  arguments :: "'a list"
  attemptNumber :: int
  jobId :: "string option"
  own_fields :: 'u

text \<open>
  A method of a job runs on the instance (\<^verbatim>\<open>this\<close>), may change it, and either
  returns or throws an error of type \<open>'e\<close>.
\<close>

type_synonym ('a, 'u, 'e, 'x) job_method =
  "('a, 'u) job_instance \<Rightarrow> ('e + 'x) \<times> ('a, 'u) job_instance"

text \<open>
  A job class: the static fields of \<^verbatim>\<open>BaseJob\<close> (\<open>filePath\<close> is \<^verbatim>\<open>_filePath\<close>, \<open>None\<close>
  is \<^verbatim>\<open>null\<close>), the class name, and the methods of its prototype. \<^verbatim>\<open>perform\<close> is always
  there (the base class has one); the three hooks exist only where a subclass defines
  them, which is what \<^verbatim>\<open>typeof this.beforePerform === 'function'\<close> tests.
\<close>

record ('u, 'a, 'r, 'e) job_class =
  name :: string
  queue :: string
  retryAttempts :: "int option"
  backoffDelay :: "int option"
  filePath :: "string option"
  init_fields :: 'u
  beforePerform :: "('a, 'u, 'e, unit) job_method option"
  perform :: "'a list \<Rightarrow> ('a, 'u, 'e, 'r) job_method"
  afterPerform :: "('r \<Rightarrow> ('a, 'u, 'e, unit) job_method) option"
  onError :: "('e \<Rightarrow> ('a, 'u, 'e, unit) job_method) option"

text \<open>\<^verbatim>\<open>new JobClass()\<close>: the field initialisers of \<^verbatim>\<open>BaseJob\<close> and of the subclass.\<close>

definition new_instance :: "('u, 'a, 'r, 'e) job_class \<Rightarrow> ('a, 'u) job_instance" where
  "new_instance JobClass =
     \<lparr> arguments = [], attemptNumber = 1, jobId = None, own_fields = init_fields JobClass \<rparr>"

text \<open>
  The calls \<^verbatim>\<open>performNow\<close> makes on the instance, in the order it makes them: this list is
  what an observer of the hooks sees.
\<close>

datatype ('a, 'r, 'e) hook_call =
  BeforePerform | Perform "'a list" | AfterPerform 'r | OnError 'e

text \<open>
  The three guarded hook calls of \<^verbatim>\<open>performNow\<close>. Each returns the outcome of the
  hook (nothing happens when the hook is not defined), the instance afterwards, and the
  calls made.
\<close>

definition call_beforePerform ::
  "('u, 'a, 'r, 'e) job_class \<Rightarrow> ('a, 'u) job_instance
     \<Rightarrow> ('e + unit) \<times> ('a, 'u) job_instance \<times> ('a, 'r, 'e) hook_call list" where
  "call_beforePerform JobClass this =
     (case beforePerform JobClass of
        None \<Rightarrow> (Inr (), this, [])
      | Some hook \<Rightarrow> (case hook this of (outcome, this') \<Rightarrow> (outcome, this', [BeforePerform])))"

definition call_afterPerform ::
  "('u, 'a, 'r, 'e) job_class \<Rightarrow> 'r \<Rightarrow> ('a, 'u) job_instance
     \<Rightarrow> ('e + unit) \<times> ('a, 'u) job_instance \<times> ('a, 'r, 'e) hook_call list" where
  "call_afterPerform JobClass result this =
     (case afterPerform JobClass of
        None \<Rightarrow> (Inr (), this, [])
      | Some hook \<Rightarrow>
          (case hook result this of (outcome, this') \<Rightarrow> (outcome, this', [AfterPerform result])))"

definition call_onError ::
  "('u, 'a, 'r, 'e) job_class \<Rightarrow> 'e \<Rightarrow> ('a, 'u) job_instance
     \<Rightarrow> ('e + unit) \<times> ('a, 'u) job_instance \<times> ('a, 'r, 'e) hook_call list" where
  "call_onError JobClass err this =
     (case onError JobClass of
        None \<Rightarrow> (Inr (), this, [])
      | Some hook \<Rightarrow> (case hook err this of (outcome, this') \<Rightarrow> (outcome, this', [OnError err])))"

text \<open>The body of the \<^verbatim>\<open>try\<close> block: before hook, \<^verbatim>\<open>perform\<close>, after hook, \<^verbatim>\<open>return result\<close>.\<close>

definition performNow_try ::
  "('u, 'a, 'r, 'e) job_class \<Rightarrow> 'a list \<Rightarrow> ('a, 'u) job_instance
     \<Rightarrow> ('e + 'r) \<times> ('a, 'u) job_instance \<times> ('a, 'r, 'e) hook_call list" where
  "performNow_try JobClass args this =
     (case call_beforePerform JobClass this of
        (Inl err, this1, calls1) \<Rightarrow> (Inl err, this1, calls1)
      | (Inr _, this1, calls1) \<Rightarrow>
          (case perform JobClass args this1 of
             (Inl err, this2) \<Rightarrow> (Inl err, this2, calls1 @ [Perform args])
           | (Inr result, this2) \<Rightarrow>
               (case call_afterPerform JobClass result this2 of
                  (Inl err, this3, calls3) \<Rightarrow> (Inl err, this3, calls1 @ [Perform args] @ calls3)
                | (Inr _, this3, calls3) \<Rightarrow>
                    (Inr result, this3, calls1 @ [Perform args] @ calls3))))"

text \<open>
  \<^verbatim>\<open>performNow(...args)\<close>: store the arguments, run the \<^verbatim>\<open>try\<close> block; the \<^verbatim>\<open>catch\<close>
  block receives whatever the \<^verbatim>\<open>try\<close> block threw, calls the error hook and
  \<^verbatim>\<open>throw error\<close> is reached only when that call returns.
\<close>

definition performNow ::
  "('u, 'a, 'r, 'e) job_class \<Rightarrow> 'a list \<Rightarrow> ('a, 'u) job_instance
     \<Rightarrow> ('e + 'r) \<times> ('a, 'u) job_instance \<times> ('a, 'r, 'e) hook_call list" where
  "performNow JobClass args this =
     (case performNow_try JobClass args (this\<lparr>arguments := args\<rparr>) of
        (Inr result, this1, calls1) \<Rightarrow> (Inr result, this1, calls1)
      | (Inl err, this1, calls1) \<Rightarrow>
          (case call_onError JobClass err this1 of
             (Inl err', this2, calls2) \<Rightarrow> (Inl err', this2, calls1 @ calls2)
           | (Inr _, this2, calls2) \<Rightarrow> (Inl err, this2, calls1 @ calls2)))"

section \<open>The process state behind the dispatch methods\<close>

text \<open>
  What BullMQ is given by \<^verbatim>\<open>queue.add(name, data, opts)\<close>, and the job it hands back.
\<close>

record 'a job_data =
  jobClassName :: string
  jobClassPath :: "string option"
  data_args :: "'a list"

record backoff_opts =
  backoff_type :: string
  backoff_delay :: int

record job_opts =
  opts_delay :: int
  opts_attempts :: int
  opts_backoff :: backoff_opts
  removeOnComplete :: bool
  removeOnFail :: bool

record 'a bull_job =
  job_queue :: string
  job_name :: string
  job_data :: "'a job_data"
  job_opts :: job_opts
  job_id :: nat

text \<open>
  Reading a property: one the object does not have reads as \<^verbatim>\<open>undefined\<close>, exactly as
  one that is there with the value \<^verbatim>\<open>undefined\<close>.
\<close>

definition property :: "jsobject \<Rightarrow> string \<Rightarrow> jsval" where
  "property obj k = (case obj k of None \<Rightarrow> JUndefined | Some v \<Rightarrow> v)"

text \<open>The connection settings read off \<^verbatim>\<open>config.redis\<close>.\<close>

record connection =
  host :: jsval
  port :: jsval
  password :: jsval

definition connection_of :: "config \<Rightarrow> connection" where
  "connection_of cfg =
     \<lparr> host = property (redis cfg) ''host'', port = property (redis cfg) ''port'',
       password = property (redis cfg) ''password'' \<rparr>"

record queue_handle =
  queue_name :: string
  queue_connection :: connection

text \<open>The options object an adapter's \<^verbatim>\<open>enqueue\<close> receives; every property is optional.\<close>

record 'a enqueue_options =
  opt_args :: "'a list option"
  opt_delay :: "int option"
  opt_attempts :: "int option"
  opt_backoff :: "int option"

datatype adapter = InlineAdapter | RedisAdapter

text \<open>What a timer or a job instance is asked to do, in the order it happens.\<close>

datatype ('a, 'r, 'e) event = Timeout int | Called "('a, 'r, 'e) hook_call"

text \<open>
  The module-level state of the library together with the job classes that exist.
  A class is referred to by its position in \<open>classes\<close>; defining a class appends to the
  list. \<open>inlineAdapter\<close> and \<open>redisAdapter\<close> say whether the cached adapter instance of
  \<^verbatim>\<open>adapters/index.js\<close> exists, \<open>queues\<close> is the cache of the Redis adapter, \<open>broker\<close> the
  jobs BullMQ has accepted, numbered in order of arrival, and \<open>timeline\<close> the timers
  awaited and hook calls made so far.
  The methods of a job act on their instance: they reach neither the classes nor the
  configuration.

  BullMQ is not part of the repository, so what it refuses is a parameter of the state:
  \<open>new_Queue_throws n c\<close> is the error \<^verbatim>\<open>new Queue(n, { connection: c })\<close> throws, if any,
  and \<open>queue_add_rejects held q n d os\<close> is the error with which \<^verbatim>\<open>q.add(n, d, os)\<close>
  rejects, if any, when the broker holds the jobs \<open>held\<close> (an unreachable broker, an
  option it refuses).
\<close>

record ('u, 'a, 'r, 'e) world =
  currentConfig :: config
  classes :: "('u, 'a, 'r, 'e) job_class list"
  inlineAdapter :: bool
  redisAdapter :: bool
  queues :: "string \<rightharpoonup> queue_handle"
  broker :: "'a bull_job list"
  timeline :: "('a, 'r, 'e) event list"
  new_Queue_throws :: "string \<Rightarrow> connection \<Rightarrow> 'e option"
  queue_add_rejects ::
    "'a bull_job list \<Rightarrow> queue_handle \<Rightarrow> string \<Rightarrow> 'a job_data \<Rightarrow> job_opts \<Rightarrow> 'e option"

text \<open>A process that has loaded the library and defined the classes \<open>cs\<close>.\<close>

definition initial_world ::
  "(string \<Rightarrow> connection \<Rightarrow> 'e option)
     \<Rightarrow> ('a bull_job list \<Rightarrow> queue_handle \<Rightarrow> string \<Rightarrow> 'a job_data \<Rightarrow> job_opts \<Rightarrow> 'e option)
     \<Rightarrow> ('u, 'a, 'r, 'e) job_class list \<Rightarrow> ('u, 'a, 'r, 'e) world" where
  "initial_world Queue_throws add_rejects cs =
     \<lparr> currentConfig = defaultConfig, classes = cs, inlineAdapter = False, redisAdapter = False,
       queues = Map.empty, broker = [], timeline = [],
       new_Queue_throws = Queue_throws, queue_add_rejects = add_rejects \<rparr>"


section \<open>adapters/index.js\<close>

definition getAdapter :: "('u, 'a, 'r, 'e) world \<Rightarrow> ('e error + adapter) \<times> ('u, 'a, 'r, 'e) world" where
  "getAdapter w =
     (if queueAdapter (currentConfig w) = JStr ''inline''
        then (Inr InlineAdapter, w\<lparr>inlineAdapter := True\<rparr>)
      else if queueAdapter (currentConfig w) = JStr ''redis''
        then (Inr RedisAdapter, w\<lparr>redisAdapter := True\<rparr>)
      else (Inl (UnknownAdapterType (queueAdapter (currentConfig w))), w))"

section \<open>adapters/inline-adapter.js and adapters/redis-adapter.js\<close>

text \<open>What \<^verbatim>\<open>enqueue\<close> resolves to: the job's result (inline) or the BullMQ job (Redis).\<close>

datatype ('a, 'r) enqueued = Executed 'r | Queued "'a bull_job"

definition InlineAdapter_enqueue ::
  "nat \<Rightarrow> 'a enqueue_options \<Rightarrow> ('u, 'a, 'r, 'e) world
     \<Rightarrow> ('e error + ('a, 'r) enqueued) \<times> ('u, 'a, 'r, 'e) world" where
  "InlineAdapter_enqueue JobClass options w =
     (let args = (case opt_args options of None \<Rightarrow> [] | Some xs \<Rightarrow> xs);
          delay = (case opt_delay options of None \<Rightarrow> 0 | Some d \<Rightarrow> d);
          w1 = (if delay > 0 then w\<lparr>timeline := timeline w @ [Timeout delay]\<rparr> else w);
          job = new_instance (classes w1 ! JobClass)
      in case performNow (classes w1 ! JobClass) args job of
           (Inl err, _, calls) \<Rightarrow>
             (Inl (Thrown err), w1\<lparr>timeline := timeline w1 @ map Called calls\<rparr>)
         | (Inr result, _, calls) \<Rightarrow>
             (Inr (Executed result), w1\<lparr>timeline := timeline w1 @ map Called calls\<rparr>))"

text \<open>
  \<^verbatim>\<open>getQueue(queueName)\<close>: a cached queue is returned as it is; otherwise
  \<^verbatim>\<open>new Queue(...)\<close> runs first, and when it throws nothing has been cached.
\<close>

definition getQueue ::
  "string \<Rightarrow> ('u, 'a, 'r, 'e) world \<Rightarrow> ('e error + queue_handle) \<times> ('u, 'a, 'r, 'e) world" where
  "getQueue queueName w =
     (case queues w queueName of
        Some q \<Rightarrow> (Inr q, w)
      | None \<Rightarrow>
          (case new_Queue_throws w queueName (connection_of (currentConfig w)) of
             Some err \<Rightarrow> (Inl (BullMQ_error err), w)
           | None \<Rightarrow>
               (let q = \<lparr> queue_name = queueName,
                          queue_connection = connection_of (currentConfig w) \<rparr>
                in (Inr q, w\<lparr>queues := (queues w)(queueName \<mapsto> q)\<rparr>))))"

text \<open>
  \<^verbatim>\<open>JobClass.queue || 'default'\<close> and \<^verbatim>\<open>JobClass._filePath || null\<close>: the empty string
  is falsy. \<^verbatim>\<open>enqueue\<close> has no \<^verbatim>\<open>try\<close>: an error of \<^verbatim>\<open>getQueue\<close> or a rejection of
  \<^verbatim>\<open>await queue.add(...)\<close> is the caller's, and then no job has been added (the queue
  stays cached when only \<^verbatim>\<open>add\<close> failed).
\<close>

definition RedisAdapter_enqueue ::
  "nat \<Rightarrow> 'a enqueue_options \<Rightarrow> ('u, 'a, 'r, 'e) world
     \<Rightarrow> ('e error + ('a, 'r) enqueued) \<times> ('u, 'a, 'r, 'e) world" where
  "RedisAdapter_enqueue JobClass options w =
     (let args = (case opt_args options of None \<Rightarrow> [] | Some xs \<Rightarrow> xs);
          delay = (case opt_delay options of None \<Rightarrow> 0 | Some d \<Rightarrow> d);
          attempts = (case opt_attempts options of
                        None \<Rightarrow> defaultRetryAttempts (currentConfig w) | Some n \<Rightarrow> n);
          backoff = (case opt_backoff options of
                       None \<Rightarrow> defaultBackoffDelay (currentConfig w) | Some b \<Rightarrow> b);
          queueName = (if queue (classes w ! JobClass) = [] then ''default''
                       else queue (classes w ! JobClass))
      in case getQueue queueName w of
           (Inl err, w1) \<Rightarrow> (Inl err, w1)
         | (Inr q, w1) \<Rightarrow>
             (let jobData =
                    \<lparr> jobClassName = name (classes w1 ! JobClass),
                      jobClassPath = (case filePath (classes w1 ! JobClass) of
                                        None \<Rightarrow> None
                                      | Some p \<Rightarrow> if p = [] then None else Some p),
                      data_args = args \<rparr>;
                  job =
                    \<lparr> job_queue = queue_name q,
                      job_name = name (classes w1 ! JobClass),
                      job_data = jobData,
                      job_opts = \<lparr> opts_delay = delay, opts_attempts = attempts,
                                   opts_backoff = \<lparr> backoff_type = ''fixed'', backoff_delay = backoff \<rparr>,
                                   removeOnComplete = True, removeOnFail = False \<rparr>,
                      job_id = length (broker w1) \<rparr>
              in case queue_add_rejects w1 (broker w1) q (job_name job) jobData (job_opts job) of
                   Some err \<Rightarrow> (Inl (BullMQ_error err), w1)
                 | None \<Rightarrow> (Inr (Queued job), w1\<lparr>broker := broker w1 @ [job]\<rparr>)))"

definition enqueue ::
  "adapter \<Rightarrow> nat \<Rightarrow> 'a enqueue_options \<Rightarrow> ('u, 'a, 'r, 'e) world
     \<Rightarrow> ('e error + ('a, 'r) enqueued) \<times> ('u, 'a, 'r, 'e) world" where
  "enqueue adapter JobClass options w =
     (case adapter of
        InlineAdapter \<Rightarrow> InlineAdapter_enqueue JobClass options w
      | RedisAdapter \<Rightarrow> RedisAdapter_enqueue JobClass options w)"

section \<open>base-job.js: the static methods\<close>

text \<open>\<^verbatim>\<open>x ?? y\<close> on a value that is \<^verbatim>\<open>null\<close> or a number.\<close>

definition nullish :: "'x option \<Rightarrow> 'x \<Rightarrow> 'x" where
  "nullish x y = (case x of None \<Rightarrow> y | Some v \<Rightarrow> v)"


definition performIn ::
  "nat \<Rightarrow> int \<Rightarrow> 'a list \<Rightarrow> ('u, 'a, 'r, 'e) world
     \<Rightarrow> ('e error + ('a, 'r) enqueued) \<times> ('u, 'a, 'r, 'e) world" where
  "performIn this delayMs args w =
     (case getAdapter w of
        (Inl err, w1) \<Rightarrow> (Inl err, w1)
      | (Inr adapter, w1) \<Rightarrow>
          enqueue adapter this
            \<lparr> opt_args = Some args,
              opt_delay = Some delayMs,
              opt_attempts = Some (nullish (retryAttempts (classes w1 ! this))
                                     (defaultRetryAttempts (currentConfig w1))),
              opt_backoff = Some (nullish (backoffDelay (classes w1 ! this))
                                    (defaultBackoffDelay (currentConfig w1))) \<rparr>
            w1)"

text \<open>
  \<^verbatim>\<open>performAt(date, ...args)\<close>; \<open>date\<close> is \<^verbatim>\<open>date.getTime()\<close> and \<open>now\<close> is what
  \<^verbatim>\<open>Date.now()\<close> returns when the method runs, both in milliseconds.
\<close>

definition performAt ::
  "nat \<Rightarrow> int \<Rightarrow> int \<Rightarrow> 'a list \<Rightarrow> ('u, 'a, 'r, 'e) world
     \<Rightarrow> ('e error + ('a, 'r) enqueued) \<times> ('u, 'a, 'r, 'e) world" where
  "performAt this now date args w =
     (let delayMs = max 0 (date - now) in performIn this delayMs args w)"


datatype chainable = Chainable nat



fun chain_performIn ::
  "chainable \<Rightarrow> int \<Rightarrow> 'a list \<Rightarrow> ('u, 'a, 'r, 'e) world
     \<Rightarrow> ('e error + ('a, 'r) enqueued) \<times> ('u, 'a, 'r, 'e) world" where
  "chain_performIn (Chainable ConfiguredJob) delayMs args w = performIn ConfiguredJob delayMs args w"

fun chain_performAt ::
  "chainable \<Rightarrow> int \<Rightarrow> int \<Rightarrow> 'a list \<Rightarrow> ('u, 'a, 'r, 'e) world
     \<Rightarrow> ('e error + ('a, 'r) enqueued) \<times> ('u, 'a, 'r, 'e) world" where
  "chain_performAt (Chainable ConfiguredJob) now date args w = performAt ConfiguredJob now date args w"

section \<open>worker.js: starting workers\<close>

text \<open>
  A BullMQ worker as \<^verbatim>\<open>startWorker\<close> constructs it. \<open>worker_serial\<close> tells two
  constructed workers apart: it is the number of workers constructed before this one.
\<close>

record worker =
  worker_queue :: string
  worker_connection :: connection
  worker_concurrency :: int
  worker_serial :: nat

record worker_options =
  opt_concurrency :: "int option"

text \<open>
  The \<^verbatim>\<open>workers\<close> map of the module and how many workers it has constructed.
  \<open>new_Worker_throws n c k\<close> is the error BullMQ's
  \<^verbatim>\<open>new Worker(n, processJob, { connection: c, concurrency: k })\<close> throws, if any.
\<close>

record 'e worker_module =
  workers :: "string \<rightharpoonup> worker"
  constructed :: nat
  new_Worker_throws :: "string \<Rightarrow> connection \<Rightarrow> int \<Rightarrow> 'e option"

text \<open>
  \<^verbatim>\<open>startWorker(queueName, options)\<close>. \<^verbatim>\<open>new Worker(...)\<close> comes before
  \<^verbatim>\<open>workers.set(queueName, worker)\<close>: when the constructor throws, nothing is registered.
\<close>

definition startWorker ::
  "string \<Rightarrow> worker_options \<Rightarrow> config \<Rightarrow> 'e worker_module
     \<Rightarrow> ('e error + worker) \<times> 'e worker_module" where
  "startWorker queueName options cfg m =
     (let concurrency = (case opt_concurrency options of None \<Rightarrow> 1 | Some n \<Rightarrow> n)
      in case workers m queueName of
           Some existing \<Rightarrow> (Inr existing, m)
         | None \<Rightarrow>
             (case new_Worker_throws m queueName (connection_of cfg) concurrency of
                Some err \<Rightarrow> (Inl (BullMQ_error err), m)
              | None \<Rightarrow>
                  (let worker = \<lparr> worker_queue = queueName,
                                   worker_connection = connection_of cfg,
                                   worker_concurrency = concurrency,
                                   worker_serial = constructed m \<rparr>
                   in (Inr worker, m\<lparr>workers := (workers m)(queueName \<mapsto> worker),
                                     constructed := Suc (constructed m)\<rparr>))))"

text \<open>\<^verbatim>\<open>queueNames.map(name => startWorker(name, options))\<close> stops at the first error.\<close>

fun startWorkers ::
  "string list \<Rightarrow> worker_options \<Rightarrow> config \<Rightarrow> 'e worker_module
     \<Rightarrow> ('e error + worker list) \<times> 'e worker_module" where
  "startWorkers [] options cfg m = (Inr [], m)"
| "startWorkers (queueName # rest) options cfg m =
     (case startWorker queueName options cfg m of
        (Inl err, m1) \<Rightarrow> (Inl err, m1)
      | (Inr worker, m1) \<Rightarrow>
          (case startWorkers rest options cfg m1 of
             (Inl err, m2) \<Rightarrow> (Inl err, m2)
           | (Inr started, m2) \<Rightarrow> (Inr (worker # started), m2)))"

section \<open>Concrete jobs\<close>

text \<open>
  \<^verbatim>\<open>FailingJob\<close> of the usage example: queue \<^verbatim>\<open>'default'\<close>, three attempts, 500 ms
  backoff, a \<^verbatim>\<open>perform\<close> that always throws and an \<^verbatim>\<open>onError\<close> that only logs. Errors
  are their messages.
\<close>

definition FailingJob :: "(nat, jsval, jsval, string) job_class" where
  "FailingJob =
     \<lparr> name = ''FailingJob'', queue = ''default'',
       retryAttempts = Some 3, backoffDelay = Some 500, filePath = None,
       init_fields = 0,
       beforePerform = None,
       perform = (\<lambda>args this. (Inl ''This job always fails!'', this)),
       afterPerform = None,
       onError = Some (\<lambda>err this. (Inr (), this)) \<rparr>"

text \<open>
  A job with all three hooks, each of which can be made to throw by the arguments:
  \<^item> \<^verbatim>\<open>beforePerform\<close> validates \<^verbatim>\<open>this.arguments\<close> and rejects a single \<^verbatim>\<open>null\<close>;
  \<^item> \<^verbatim>\<open>perform(x)\<close> throws \<^verbatim>\<open>Error(x)\<close> when \<open>x\<close> is a string, otherwise returns \<open>x\<close>
    and counts the run in a field of its own;
  \<^item> \<^verbatim>\<open>afterPerform(result)\<close> throws on the result \<open>0\<close>;
  \<^item> \<^verbatim>\<open>onError(error)\<close> throws on the message \<^verbatim>\<open>'fatal'\<close>.
\<close>

definition ProbeJob :: "(nat, jsval, jsval, string) job_class" where
  "ProbeJob =
     \<lparr> name = ''ProbeJob'', queue = ''probes'',
       retryAttempts = None, backoffDelay = None, filePath = None,
       init_fields = 0,
       beforePerform = Some (\<lambda>this.
          if arguments this = [JNull] then (Inl ''invalid arguments'', this) else (Inr (), this)),
       perform = (\<lambda>args this.
          case args of
            [JStr message] \<Rightarrow> (Inl message, this)
          | [x] \<Rightarrow> (Inr x, this\<lparr>own_fields := Suc (own_fields this)\<rparr>)
          | _ \<Rightarrow> (Inr JUndefined, this\<lparr>own_fields := Suc (own_fields this)\<rparr>)),
       afterPerform = Some (\<lambda>result this.
          if result = JNum 0 then (Inl ''after hook failed'', this) else (Inr (), this)),
       onError = Some (\<lambda>err this.
          if err = ''fatal'' then (Inl ''error hook failed'', this) else (Inr (), this)) \<rparr>"

text \<open>\<^verbatim>\<open>FailingJob\<close> under another name and on a queue whose name has a colon in it.\<close>

definition ColonJob :: "(nat, jsval, jsval, string) job_class" where
  "ColonJob = FailingJob\<lparr>name := ''ColonJob'', queue := ''a:b''\<rparr>"

section \<open>A concrete BullMQ and concrete processes\<close>

text \<open>
  The BullMQ of the processes below: its constructors refuse an empty queue name and a
  queue name with a colon in it, its worker constructor also refuses a concurrency below
  one, and its broker accepts every job.
\<close>

definition bullmq_Queue_throws :: "string \<Rightarrow> connection \<Rightarrow> string option" where
  "bullmq_Queue_throws n c =
     (if n = [] then Some ''Queue name must be provided''
      else if CHR '':'' \<in> set n then Some ''Queue name cannot contain :''
      else None)"

definition bullmq_add_rejects ::
  "jsval bull_job list \<Rightarrow> queue_handle \<Rightarrow> string \<Rightarrow> jsval job_data \<Rightarrow> job_opts
     \<Rightarrow> string option" where
  "bullmq_add_rejects held q n d os = None"

definition bullmq_Worker_throws :: "string \<Rightarrow> connection \<Rightarrow> int \<Rightarrow> string option" where
  "bullmq_Worker_throws n c k =
     (if n = [] then Some ''Queue name must be provided''
      else if CHR '':'' \<in> set n then Some ''Queue name cannot contain :''
      else if k < 1 then Some ''concurrency must be a finite number greater than 0''
      else None)"

text \<open>
  A process that has defined the three jobs and changed nothing else, and the same process
  after \<^verbatim>\<open>config.queueAdapter = 'redis'\<close>.
\<close>

definition demo_world :: "(nat, jsval, jsval, string) world" where
  "demo_world = initial_world bullmq_Queue_throws bullmq_add_rejects [FailingJob, ProbeJob, ColonJob]"




definition no_workers :: "string worker_module" where
  "no_workers = \<lparr> workers = Map.empty, constructed = 0,
                  new_Worker_throws = bullmq_Worker_throws \<rparr>"

section \<open>Properties of the configuration\<close>

text \<open>
  Claim C7. Assigning a value that is not one of the adapter kinds to
  \<^verbatim>\<open>config.queueAdapter\<close> throws in the assignment itself, and the configuration
  (the adapter kind included) is what it was before.
\<close>

theorem set_queueAdapter_invalid:
  "adapter \<notin> set ADAPTER_TYPES \<Longrightarrow>
     set_queueAdapter adapter cfg = (Inl (UnknownAdapter adapter), cfg)"
  by (simp add: set_queueAdapter_def)

theorem set_queueAdapter_invalid_witness:
  "JStr ''sidekiq'' \<notin> set ADAPTER_TYPES \<and>
   set_queueAdapter (JStr ''sidekiq'') defaultConfig
     = (Inl (UnknownAdapter (JStr ''sidekiq'')), defaultConfig)"
proof -
  have h: "JStr ''sidekiq'' \<notin> set ADAPTER_TYPES"
    by (simp add: ADAPTER_TYPES_def)
  show ?thesis
    using h set_queueAdapter_invalid [OF h, of defaultConfig] by simp
qed

text \<open>
  Claim C9. Assigning an options object to \<^verbatim>\<open>config.redis\<close> merges it into the
  stored connection settings: a property the object has takes the object's value, a
  property it does not have keeps the stored one, and no other setting changes.
\<close>

theorem set_redis_merges:
  "(k \<in> dom options \<longrightarrow> redis (set_redis options cfg) k = options k) \<and>
   (k \<notin> dom options \<longrightarrow> redis (set_redis options cfg) k = redis cfg k) \<and>
   queueAdapter (set_redis options cfg) = queueAdapter cfg \<and>
   defaultRetryAttempts (set_redis options cfg) = defaultRetryAttempts cfg \<and>
   defaultBackoffDelay (set_redis options cfg) = defaultBackoffDelay cfg"
  by (auto simp: set_redis_def map_add_def split: option.splits)

theorem set_redis_merges_witness:
  "''host'' \<in> dom [''host'' \<mapsto> JStr ''redis.example.com''] \<and>
   ''port'' \<notin> dom [''host'' \<mapsto> JStr ''redis.example.com''] \<and>
   redis (set_redis [''host'' \<mapsto> JStr ''redis.example.com''] defaultConfig) ''host''
     = Some (JStr ''redis.example.com'') \<and>
   redis (set_redis [''host'' \<mapsto> JStr ''redis.example.com''] defaultConfig) ''port''
     = Some (JNum 6379)"
  using set_redis_merges [of "''host''" "[''host'' \<mapsto> JStr ''redis.example.com'']" defaultConfig]
        set_redis_merges [of "''port''" "[''host'' \<mapsto> JStr ''redis.example.com'']" defaultConfig]
  by (simp add: defaultConfig_def)

section \<open>Properties of performNow\<close>

lemma performNow_try_rejected:
  "call_beforePerform J this = (Inl e, s1, l1) \<Longrightarrow> performNow_try J args this = (Inl e, s1, l1)"
  by (simp add: performNow_try_def)

lemma performNow_try_raised:
  "call_beforePerform J this = (Inr u, s1, l1) \<Longrightarrow> perform J args s1 = (Inl e, s2) \<Longrightarrow>
     performNow_try J args this = (Inl e, s2, l1 @ [Perform args])"
  by (simp add: performNow_try_def)

lemma performNow_try_returned:
  "call_beforePerform J this = (Inr u, s1, l1) \<Longrightarrow> perform J args s1 = (Inr r, s2) \<Longrightarrow>
   call_afterPerform J r s2 = (out, s3, l3) \<Longrightarrow>
     performNow_try J args this
       = ((case out of Inl e \<Rightarrow> Inl e | Inr _ \<Rightarrow> Inr r), s3, l1 @ [Perform args] @ l3)"
  by (simp add: performNow_try_def split: sum.splits)

lemma performNow_caught:
  "performNow_try J args (this\<lparr>arguments := args\<rparr>) = (Inl e, s1, l1) \<Longrightarrow>
   call_onError J e s1 = (out, s2, l2) \<Longrightarrow>
     performNow J args this = ((case out of Inl e' \<Rightarrow> Inl e' | Inr _ \<Rightarrow> Inl e), s2, l1 @ l2)"
  by (simp add: performNow_def split: sum.splits)

lemma performNow_completed:
  "performNow_try J args (this\<lparr>arguments := args\<rparr>) = (Inr r, s1, l1) \<Longrightarrow>
     performNow J args this = (Inr r, s1, l1)"
  by (simp add: performNow_def)

text \<open>
  Where the hooks themselves return, the calls are the documented ones. With all three
  hooks defined and a before hook that returns, they are before, \<^verbatim>\<open>perform(a1..an)\<close>,
  after, and nothing else, when \<^verbatim>\<open>perform\<close> and the after hook both return, and before,
  \<^verbatim>\<open>perform(a1..an)\<close>, \<^verbatim>\<open>onError\<close> when \<^verbatim>\<open>perform\<close> throws.
\<close>

lemma performNow_order_hooks_returning:
  assumes "beforePerform J = Some b" and "afterPerform J = Some a" and "onError J = Some h"
    and "b (this\<lparr>arguments := args\<rparr>) = (Inr u, s1)"
  shows "(\<forall>r s2 v s3. perform J args s1 = (Inr r, s2) \<and> a r s2 = (Inr v, s3) \<longrightarrow>
            performNow J args this = (Inr r, s3, [BeforePerform, Perform args, AfterPerform r]))
       \<and> (\<forall>e s2. perform J args s1 = (Inl e, s2) \<longrightarrow>
            snd (snd (performNow J args this)) = [BeforePerform, Perform args, OnError e])"
proof -
  have before: "call_beforePerform J (this\<lparr>arguments := args\<rparr>) = (Inr u, s1, [BeforePerform])"
    using assms(1,4) by (simp add: call_beforePerform_def)
  have success: "performNow J args this = (Inr r, s3, [BeforePerform, Perform args, AfterPerform r])"
    if "perform J args s1 = (Inr r, s2)" and "a r s2 = (Inr v, s3)" for r s2 v s3
  proof -
    have "call_afterPerform J r s2 = (Inr v, s3, [AfterPerform r])"
      using assms(2) that(2) by (simp add: call_afterPerform_def)
    from performNow_try_returned [OF before that(1) this]
    show ?thesis by (simp add: performNow_completed)
  qed
  have failure: "snd (snd (performNow J args this)) = [BeforePerform, Perform args, OnError e]"
    if "perform J args s1 = (Inl e, s2)" for e s2
  proof -
    obtain out s3 where "h e s2 = (out, s3)" by (cases "h e s2")
    then have "call_onError J e s2 = (out, s3, [OnError e])"
      using assms(3) by (simp add: call_onError_def)
    from performNow_caught [OF performNow_try_raised [OF before that] this]
    show ?thesis by simp
  qed
  from success failure show ?thesis by blast
qed

text \<open>
  Claim C1: with all three hooks defined, the calls are exactly before, \<^verbatim>\<open>perform\<close>,
  after when \<^verbatim>\<open>perform\<close> succeeds. The code does not keep to this where \<^verbatim>\<open>perform\<close>
  returns and the after hook throws. \<^verbatim>\<open>afterPerform\<close> is awaited inside the \<^verbatim>\<open>try\<close>
  block, so its error reaches the \<^verbatim>\<open>catch\<close> block, and \<^verbatim>\<open>onError\<close>, which the library
  documents as called when \<^verbatim>\<open>perform()\<close> throws an error, is called although
  \<^verbatim>\<open>perform\<close> succeeded: \<^verbatim>\<open>performNow(0)\<close> on the job below calls before, \<^verbatim>\<open>perform(0)\<close>,
  after and then \<^verbatim>\<open>onError\<close> with the after hook's error.
\<close>

theorem performNow_after_hook_throws:
  "fst (perform ProbeJob [JNum 0] ((new_instance ProbeJob)\<lparr>arguments := [JNum 0]\<rparr>)) = Inr (JNum 0)
   \<and> snd (snd (performNow ProbeJob [JNum 0] (new_instance ProbeJob)))
       = [BeforePerform, Perform [JNum 0], AfterPerform (JNum 0), OnError ''after hook failed'']
   \<and> snd (snd (performNow ProbeJob [JNum 0] (new_instance ProbeJob)))
       \<noteq> [BeforePerform, Perform [JNum 0], AfterPerform (JNum 0)]"
  by (simp add: performNow_def performNow_try_def call_beforePerform_def call_afterPerform_def
      call_onError_def ProbeJob_def new_instance_def)

text \<open>
  When the before hook throws, \<^verbatim>\<open>perform\<close> and the after hook are not called and the
  caller receives an error; for a job without an error hook it is the before hook's
  error and the before hook is the only call.
\<close>

lemma performNow_before_throws_skips_perform:
  assumes "beforePerform J = Some b" and "b (this\<lparr>arguments := args\<rparr>) = (Inl e, s1)"
  shows "Perform args' \<notin> set (snd (snd (performNow J args this)))"
    and "AfterPerform r \<notin> set (snd (snd (performNow J args this)))"
    and "\<exists>e'. fst (performNow J args this) = Inl e'"
    and "onError J = None \<Longrightarrow> performNow J args this = (Inl e, s1, [BeforePerform])"
proof -
  have "call_beforePerform J (this\<lparr>arguments := args\<rparr>) = (Inl e, s1, [BeforePerform])"
    using assms by (simp add: call_beforePerform_def)
  then have tried: "performNow_try J args (this\<lparr>arguments := args\<rparr>) = (Inl e, s1, [BeforePerform])"
    by (rule performNow_try_rejected)
  obtain out s2 l2 where handled: "call_onError J e s1 = (out, s2, l2)"
    by (cases "call_onError J e s1")
  then have l2: "l2 = [] \<or> l2 = [OnError e]"
    by (auto simp: call_onError_def split: option.splits prod.splits)
  note result = performNow_caught [OF tried handled]
  show "Perform args' \<notin> set (snd (snd (performNow J args this)))"
    and "AfterPerform r \<notin> set (snd (snd (performNow J args this)))"
    using result l2 by auto
  show "\<exists>e'. fst (performNow J args this) = Inl e'"
    using result by (cases out) simp_all
  show "performNow J args this = (Inl e, s1, [BeforePerform])" if "onError J = None"
    using result handled that by (auto simp: call_onError_def)
qed

text \<open>
  Claim C2: when the before hook throws, the error reaches the caller without
  \<^verbatim>\<open>perform\<close> and without \<^verbatim>\<open>onError\<close> being called. The code does not keep to this
  for a job that defines \<^verbatim>\<open>onError\<close>. \<^verbatim>\<open>beforePerform\<close> is awaited inside the \<^verbatim>\<open>try\<close>
  block, so the \<^verbatim>\<open>catch\<close> block calls \<^verbatim>\<open>onError\<close>, which the library documents as
  called when \<^verbatim>\<open>perform()\<close> throws an error, with the before hook's error although
  \<^verbatim>\<open>perform\<close> never ran: \<^verbatim>\<open>performNow(null)\<close> on the job below calls before and then
  \<^verbatim>\<open>onError\<close>.
\<close>

theorem performNow_before_hook_throws:
  "fst (the (beforePerform ProbeJob) ((new_instance ProbeJob)\<lparr>arguments := [JNull]\<rparr>))
     = Inl ''invalid arguments''
   \<and> performNow ProbeJob [JNull] (new_instance ProbeJob)
       = (Inl ''invalid arguments'', (new_instance ProbeJob)\<lparr>arguments := [JNull]\<rparr>,
          [BeforePerform, OnError ''invalid arguments''])
   \<and> OnError ''invalid arguments''
       \<in> set (snd (snd (performNow ProbeJob [JNull] (new_instance ProbeJob))))"
  by (simp add: performNow_def performNow_try_def call_beforePerform_def call_afterPerform_def
      call_onError_def ProbeJob_def new_instance_def)

text \<open>
  Claim C3, as the code has it. When \<^verbatim>\<open>perform\<close> throws \<open>e\<close> (the before hook, if any,
  having returned), the error hook is called with \<open>e\<close> when it is defined, and what it
  returns is ignored: \<open>e\<close> itself reaches the caller whenever the hook is undefined or
  returns. When the error hook throws \<open>e'\<close>, the caller receives \<open>e'\<close>.
\<close>

theorem performNow_perform_raises:
  assumes "call_beforePerform J (this\<lparr>arguments := args\<rparr>) = (Inr u, s1, l1)"
    and "perform J args s1 = (Inl e, s2)"
  shows "(onError J = None \<longrightarrow> performNow J args this = (Inl e, s2, l1 @ [Perform args]))
       \<and> (\<forall>h v s3. onError J = Some h \<and> h e s2 = (Inr v, s3) \<longrightarrow>
            performNow J args this = (Inl e, s3, l1 @ [Perform args, OnError e]))
       \<and> (\<forall>h e' s3. onError J = Some h \<and> h e s2 = (Inl e', s3) \<longrightarrow>
            performNow J args this = (Inl e', s3, l1 @ [Perform args, OnError e]))"
proof -
  note tried = performNow_try_raised [OF assms]
  have undefined_hook: "performNow J args this = (Inl e, s2, l1 @ [Perform args])"
    if "onError J = None"
  proof -
    have "call_onError J e s2 = (Inr (), s2, [])"
      using that by (simp add: call_onError_def)
    from performNow_caught [OF tried this] show ?thesis by simp
  qed
  have defined_hook: "performNow J args this
      = ((case out of Inl e' \<Rightarrow> Inl e' | Inr _ \<Rightarrow> Inl e), s3, l1 @ [Perform args, OnError e])"
    if "onError J = Some h" and "h e s2 = (out, s3)" for h out s3
  proof -
    have "call_onError J e s2 = (out, s3, [OnError e])"
      using that by (simp add: call_onError_def)
    from performNow_caught [OF tried this] show ?thesis by simp
  qed
  show ?thesis
  proof (intro conjI allI impI)
    assume "onError J = None"
    then show "performNow J args this = (Inl e, s2, l1 @ [Perform args])"
      by (rule undefined_hook)
  next
    fix h v s3 assume "onError J = Some h \<and> h e s2 = (Inr v, s3)"
    then show "performNow J args this = (Inl e, s3, l1 @ [Perform args, OnError e])"
      using defined_hook [of h "Inr v" s3] by simp
  next
    fix h e' s3 assume "onError J = Some h \<and> h e s2 = (Inl e', s3)"
    then show "performNow J args this = (Inl e', s3, l1 @ [Perform args, OnError e])"
      using defined_hook [of h "Inl e'" s3] by simp
  qed
qed

theorem performNow_perform_raises_witness:
  "performNow (FailingJob\<lparr>onError := None\<rparr>) [JStr ''hello''] (new_instance FailingJob)
     = (Inl ''This job always fails!'', (new_instance FailingJob)\<lparr>arguments := [JStr ''hello'']\<rparr>,
        [Perform [JStr ''hello'']])
   \<and> performNow FailingJob [JStr ''hello''] (new_instance FailingJob)
     = (Inl ''This job always fails!'', (new_instance FailingJob)\<lparr>arguments := [JStr ''hello'']\<rparr>,
        [Perform [JStr ''hello''], OnError ''This job always fails!''])
   \<and> performNow ProbeJob [JStr ''fatal''] (new_instance ProbeJob)
     = (Inl ''error hook failed'', (new_instance ProbeJob)\<lparr>arguments := [JStr ''fatal'']\<rparr>,
        [BeforePerform, Perform [JStr ''fatal''], OnError ''fatal''])"
proof -
  let ?inst = "(new_instance FailingJob)\<lparr>arguments := [JStr ''hello'']\<rparr>"
  let ?probe = "(new_instance ProbeJob)\<lparr>arguments := [JStr ''fatal'']\<rparr>"
  have no_before: "call_beforePerform FailingJob ?inst = (Inr (), ?inst, [])"
    and no_before': "call_beforePerform (FailingJob\<lparr>onError := None\<rparr>) ?inst = (Inr (), ?inst, [])"
    by (simp_all add: call_beforePerform_def FailingJob_def)
  have fails: "perform FailingJob [JStr ''hello''] ?inst = (Inl ''This job always fails!'', ?inst)"
    and fails': "perform (FailingJob\<lparr>onError := None\<rparr>) [JStr ''hello''] ?inst
                   = (Inl ''This job always fails!'', ?inst)"
    by (simp_all add: FailingJob_def)
  have before: "call_beforePerform ProbeJob ?probe = (Inr (), ?probe, [BeforePerform])"
    by (simp add: call_beforePerform_def ProbeJob_def)
  have fatal: "perform ProbeJob [JStr ''fatal''] ?probe = (Inl ''fatal'', ?probe)"
    by (simp add: ProbeJob_def)
  have "performNow (FailingJob\<lparr>onError := None\<rparr>) [JStr ''hello''] (new_instance FailingJob)
          = (Inl ''This job always fails!'', ?inst, [Perform [JStr ''hello'']])"
    using performNow_perform_raises [OF no_before' fails'] by simp
  moreover have "performNow FailingJob [JStr ''hello''] (new_instance FailingJob)
          = (Inl ''This job always fails!'', ?inst,
             [Perform [JStr ''hello''], OnError ''This job always fails!''])"
    using performNow_perform_raises [OF no_before fails] by (simp add: FailingJob_def)
  moreover have "performNow ProbeJob [JStr ''fatal''] (new_instance ProbeJob)
          = (Inl ''error hook failed'', ?probe,
             [BeforePerform, Perform [JStr ''fatal''], OnError ''fatal''])"
    using performNow_perform_raises [OF before fatal] by (simp add: ProbeJob_def)
  ultimately show ?thesis by blast
qed

text \<open>
  Claim C3 as it is written fails for a job whose error hook throws: \<^verbatim>\<open>throw error\<close>
  comes after \<^verbatim>\<open>await this.onError(error)\<close>, so the caller receives the hook's error
  in place of the one \<^verbatim>\<open>perform\<close> threw.
\<close>

theorem performNow_perform_raises_counterexample:
  "fst (perform ProbeJob [JStr ''fatal''] ((new_instance ProbeJob)\<lparr>arguments := [JStr ''fatal'']\<rparr>))
     = Inl ''fatal''
   \<and> fst (performNow ProbeJob [JStr ''fatal''] (new_instance ProbeJob)) = Inl ''error hook failed''
   \<and> fst (performNow ProbeJob [JStr ''fatal''] (new_instance ProbeJob)) \<noteq> Inl ''fatal''"
  by (simp add: performNow_def performNow_try_def call_beforePerform_def call_afterPerform_def
      call_onError_def ProbeJob_def new_instance_def)

section \<open>Properties of the dispatch methods\<close>

subsection \<open>What a dispatch leaves alone\<close>










subsection \<open>Enqueuing on the Redis adapter\<close>









subsection \<open>Scoped overrides\<close>





subsection \<open>Delays\<close>

text \<open>
  Claim C5. \<^verbatim>\<open>performAt(timestamp, args...)\<close> is \<^verbatim>\<open>performIn\<close> with the delay
  \<open>max 0 (timestamp - now)\<close>; for a timestamp that is not in the future it is \<^verbatim>\<open>performIn\<close>
  with delay \<open>0\<close>, outcome and state alike, so it throws nothing \<^verbatim>\<open>performIn(0, ...)\<close>
  does not throw.
\<close>

theorem performAt_delegates:
  "performAt c now timestamp args w = performIn c (max 0 (timestamp - now)) args w
   \<and> (timestamp \<le> now \<longrightarrow> performAt c now timestamp args w = performIn c 0 args w)"
  by (simp add: performAt_def max_def)

theorem performAt_delegates_witness:
  "(1000::int) \<le> 2500
   \<and> performAt 1 2500 1000 [JNum 1] demo_world = performIn 1 0 [JNum 1] demo_world
   \<and> performAt 1 2500 4000 [JNum 1] demo_world = performIn 1 1500 [JNum 1] demo_world"
  using performAt_delegates [of 1 2500 1000 "[JNum 1]" demo_world]
        performAt_delegates [of 1 2500 4000 "[JNum 1]" demo_world]
  by simp

text \<open>
  Claim C10. On the inline adapter a delay of zero or less is treated as no delay: no
  timer is awaited, the job runs through \<^verbatim>\<open>performNow\<close> on a fresh instance, the outcome
  is that of \<^verbatim>\<open>performNow\<close> (so the only error is one the job itself throws), and the
  whole call equals the call with delay \<open>0\<close>, also when it is made through \<^verbatim>\<open>performIn\<close>.
\<close>

theorem InlineAdapter_enqueue_nonpositive_delay:
  assumes "d \<le> 0"
  shows "InlineAdapter_enqueue c (options\<lparr>opt_delay := Some d\<rparr>) w
           = InlineAdapter_enqueue c (options\<lparr>opt_delay := Some 0\<rparr>) w
       \<and> fst (InlineAdapter_enqueue c (options\<lparr>opt_delay := Some d\<rparr>) w)
           = (case fst (performNow (classes w ! c)
                          (case opt_args options of None \<Rightarrow> [] | Some xs \<Rightarrow> xs)
                          (new_instance (classes w ! c))) of
                Inl err \<Rightarrow> Inl (Thrown err) | Inr result \<Rightarrow> Inr (Executed result))
       \<and> timeline (snd (InlineAdapter_enqueue c (options\<lparr>opt_delay := Some d\<rparr>) w))
           = timeline w @ map Called (snd (snd (performNow (classes w ! c)
                          (case opt_args options of None \<Rightarrow> [] | Some xs \<Rightarrow> xs)
                          (new_instance (classes w ! c)))))
       \<and> (queueAdapter (currentConfig w) = JStr ''inline'' \<longrightarrow>
            performIn c d args w = performIn c 0 args w)"
proof -
  have no_timer: "\<not> d > 0" using assms by simp
  have same: "InlineAdapter_enqueue c (opts\<lparr>opt_delay := Some d\<rparr>) w'
                = InlineAdapter_enqueue c (opts\<lparr>opt_delay := Some 0\<rparr>) w'"
    for opts w'
    using no_timer by (simp add: InlineAdapter_enqueue_def Let_def)
  have outcome: "fst (InlineAdapter_enqueue c (options\<lparr>opt_delay := Some d\<rparr>) w)
           = (case fst (performNow (classes w ! c)
                          (case opt_args options of None \<Rightarrow> [] | Some xs \<Rightarrow> xs)
                          (new_instance (classes w ! c))) of
                Inl err \<Rightarrow> Inl (Thrown err) | Inr result \<Rightarrow> Inr (Executed result))"
    using no_timer
    by (simp add: InlineAdapter_enqueue_def Let_def split: prod.splits sum.splits)
  have events: "timeline (snd (InlineAdapter_enqueue c (options\<lparr>opt_delay := Some d\<rparr>) w))
           = timeline w @ map Called (snd (snd (performNow (classes w ! c)
                          (case opt_args options of None \<Rightarrow> [] | Some xs \<Rightarrow> xs)
                          (new_instance (classes w ! c)))))"
    using no_timer
    by (simp add: InlineAdapter_enqueue_def Let_def split: prod.splits sum.splits)
  have through: "performIn c d args w = performIn c 0 args w"
    if "queueAdapter (currentConfig w) = JStr ''inline''"
    using that
      same [of "\<lparr> opt_args = Some args, opt_delay = Some d,
                   opt_attempts = Some (nullish (retryAttempts (classes w ! c))
                                          (defaultRetryAttempts (currentConfig w))),
                   opt_backoff = Some (nullish (backoffDelay (classes w ! c))
                                         (defaultBackoffDelay (currentConfig w))) \<rparr>"
               "w\<lparr>inlineAdapter := True\<rparr>"]
    by (simp add: performIn_def getAdapter_def enqueue_def)
  from same outcome events through show ?thesis by blast
qed

theorem InlineAdapter_enqueue_nonpositive_delay_witness:
  "(-5::int) \<le> 0
   \<and> InlineAdapter_enqueue 1
        \<lparr> opt_args = Some [JNum 1], opt_delay = Some (-5), opt_attempts = None, opt_backoff = None \<rparr>
        demo_world
     = InlineAdapter_enqueue 1
        \<lparr> opt_args = Some [JNum 1], opt_delay = Some 0, opt_attempts = None, opt_backoff = None \<rparr>
        demo_world
   \<and> performIn 1 (-5) [JNum 1] demo_world = performIn 1 0 [JNum 1] demo_world"
proof -
  have d: "(-5::int) \<le> 0" by simp
  have inline: "queueAdapter (currentConfig demo_world) = JStr ''inline''"
    by (simp add: demo_world_def initial_world_def defaultConfig_def)
  from InlineAdapter_enqueue_nonpositive_delay [OF d, of 1
      "\<lparr> opt_args = Some [JNum 1], opt_delay = None, opt_attempts = None, opt_backoff = None \<rparr>"
      demo_world "[JNum 1]"] inline
  show ?thesis by simp
qed

section \<open>Properties of the worker module\<close>

text \<open>
  Claim C8. \<^verbatim>\<open>startWorker(q)\<close> for a queue name that already has a worker returns that
  worker and changes nothing: no worker is constructed and the \<^verbatim>\<open>workers\<close> map is as it
  was, whatever options and configuration the call is made with.
\<close>

theorem startWorker_idempotent:
  "workers m q = Some existing \<Longrightarrow> startWorker q options cfg m = (Inr existing, m)"
  by (simp add: startWorker_def Let_def)

theorem startWorker_idempotent_witness:
  "startWorker ''mailers'' \<lparr>opt_concurrency = Some 1\<rparr> defaultConfig no_workers
     = (Inr \<lparr> worker_queue = ''mailers'', worker_connection = connection_of defaultConfig,
              worker_concurrency = 1, worker_serial = 0 \<rparr>,
        no_workers\<lparr>workers := [''mailers'' \<mapsto>
                       \<lparr> worker_queue = ''mailers'', worker_connection = connection_of defaultConfig,
                         worker_concurrency = 1, worker_serial = 0 \<rparr>],
                   constructed := 1\<rparr>)
   \<and> startWorker ''mailers'' \<lparr>opt_concurrency = Some 4\<rparr> defaultConfig
       (snd (startWorker ''mailers'' \<lparr>opt_concurrency = Some 1\<rparr> defaultConfig no_workers))
     = startWorker ''mailers'' \<lparr>opt_concurrency = Some 1\<rparr> defaultConfig no_workers"
proof -
  let ?w = "\<lparr> worker_queue = ''mailers'', worker_connection = connection_of defaultConfig,
              worker_concurrency = 1, worker_serial = 0 \<rparr>"
  let ?m = "no_workers\<lparr>workers := [''mailers'' \<mapsto> ?w], constructed := 1\<rparr>"
  have first: "startWorker ''mailers'' \<lparr>opt_concurrency = Some 1\<rparr> defaultConfig no_workers
                 = (Inr ?w, ?m)"
    by (simp add: startWorker_def no_workers_def bullmq_Worker_throws_def Let_def)
  have running: "workers ?m ''mailers'' = Some ?w"
    by simp
  from startWorker_idempotent [OF running, of "\<lparr>opt_concurrency = Some 4\<rparr>" defaultConfig] first
  show ?thesis by simp
qed

end
